theory Spec2Isabelle
  imports Main "HOL-Library.Char_ord" "HOL-Library.List_Lexorder" "HOL-Library.Multiset"
begin

section \<open>The pair tool: composite git identities and pair branches\<close>

text \<open>
  A shallow embedding of \<^verbatim>\<open>pair.go\<close>. Go strings are byte sequences and so are
  HOL strings; the order on strings is the bytewise lexicographic one, which is the
  order \<^verbatim>\<open>sort.Strings\<close> uses. Everything outside the process (environment, the
  pairs file, the git configuration file, the outcome of every \<^verbatim>\<open>git\<close> subprocess,
  the two output streams) is a field of the record \<open>world\<close> that is passed through.
\<close>

subsection \<open>Errors\<close>

text \<open>
  One constructor for each place where the program makes or receives an error value:
  the two \<^verbatim>\<open>errors.New\<close> of the codec, the one of the default template, a failed
  subprocess and an unreadable pairs file (both with the message the runtime gives).
\<close>

datatype error =
    InvalidEmailAddress string
  | NoSuchUsername string
  | NotFullyQualified "string list"
  | ExitError string
  | ReadError string

subsection \<open>The functions of package strings that the program calls\<close>

text \<open>\<^verbatim>\<open>strings.Split(s, sep)\<close> for a separator of one byte, the only use in the program.\<close>

fun strings_Split :: "string \<Rightarrow> char \<Rightarrow> string list" where
  "strings_Split [] sep = [[]]"
| "strings_Split (c # cs) sep =
     (if c = sep then [] # strings_Split cs sep
      else (case strings_Split cs sep of [] \<Rightarrow> [[c]] | p # ps \<Rightarrow> (c # p) # ps))"

fun strings_Join :: "string list \<Rightarrow> string \<Rightarrow> string" where
  "strings_Join [] sep = []"
| "strings_Join [a] sep = a"
| "strings_Join (a # b # bs) sep = a @ sep @ strings_Join (b # bs) sep"

definition strings_HasPrefix :: "string \<Rightarrow> string \<Rightarrow> bool" where
  "strings_HasPrefix s p \<longleftrightarrow> length s \<ge> length p \<and> take (length p) s = p"

definition strings_TrimPrefix :: "string \<Rightarrow> string \<Rightarrow> string" where
  "strings_TrimPrefix s p = (if strings_HasPrefix s p then drop (length p) s else s)"

definition strings_TrimRight :: "string \<Rightarrow> string \<Rightarrow> string" where
  "strings_TrimRight s cutset = rev (dropWhile (\<lambda>c. c \<in> set cutset) (rev s))"

text \<open>\<^verbatim>\<open>sort.Strings\<close>: ascending in the bytewise lexicographic order.\<close>

definition sort_Strings :: "string list \<Rightarrow> string list" where
  "sort_Strings a = sort a"

text \<open>The text that \<^verbatim>\<open>%v\<close> prints for an error.\<close>

fun Error :: "error \<Rightarrow> string" where
  "Error (InvalidEmailAddress email) = ''invalid email address: '' @ email"
| "Error (NoSuchUsername username) = ''no such username: '' @ username"
| "Error (NotFullyQualified dnsNames) =
     ''expected a hostname to be a fully-qualified domain name: '' @ strings_Join dnsNames '',''"
| "Error (ExitError msg) = msg"
| "Error (ReadError msg) = msg"

subsection \<open>The codec: SplitEmail, EmailAddressForUsernames, NamesForUsernames\<close>

definition SplitEmail :: "string \<Rightarrow> error + (string \<times> string)" where
  "SplitEmail email =
     (let parts = strings_Split email CHR ''@'' in
      if length parts \<noteq> 2 then Inl (InvalidEmailAddress email)
      else Inr (parts ! 0, parts ! 1))"

definition EmailAddressForUsernames :: "string \<Rightarrow> string list \<Rightarrow> error + string" where
  "EmailAddressForUsernames emailTemplate usernames =
     (case SplitEmail emailTemplate of
        Inl err \<Rightarrow> Inl err
      | Inr (user, host) \<Rightarrow>
          if length usernames = 0 then Inr emailTemplate
          else if length usernames = 1 then Inr (usernames ! 0 @ ''@'' @ host)
          else Inr (user @ ''+'' @ strings_Join usernames ''+'' @ ''@'' @ host))"

text \<open>The loop of \<^verbatim>\<open>NamesForUsernames\<close>: \<open>names\<close> is the slice built so far.\<close>

fun collectNames :: "string list \<Rightarrow> (string \<rightharpoonup> string) \<Rightarrow> string list \<Rightarrow> error + string list" where
  "collectNames [] authorMap names = Inr names"
| "collectNames (username # rest) authorMap names =
     (case authorMap username of
        None \<Rightarrow> Inl (NoSuchUsername username)
      | Some name \<Rightarrow> collectNames rest authorMap (names @ [name]))"

definition NamesForUsernames :: "string list \<Rightarrow> (string \<rightharpoonup> string) \<Rightarrow> error + string" where
  "NamesForUsernames usernames authorMap =
     (if length usernames = 0 then Inr ''''
      else (case collectNames usernames authorMap [] of
              Inl err \<Rightarrow> Inl err
            | Inr names \<Rightarrow> Inr (strings_Join names '' and '')))"

subsection \<open>The world outside the process\<close>

text \<open>
  \<open>getenv\<close> is the environment (an unset variable reads as the empty string, as
  \<^verbatim>\<open>os.ExpandEnv\<close> has it). \<open>pairs\<close> gives, for a path, what opening the file and
  \<^verbatim>\<open>ReadAuthorsByUsername\<close> give. \<open>gitconfig\<close> gives, for a path, the properties
  stored in that git configuration file. \<open>fails\<close> says for each subprocess command
  line whether it fails for a reason of its own, and with which message; \<open>commands\<close>
  lists the command lines run so far, oldest first. \<open>childOutput\<close> gives what a
  subprocess writes on its standard output and on its standard error; it reaches the
  streams of the program only where the program hands them to the child.
  \<open>reverseDNS\<close> is \<^verbatim>\<open>LookupReverseDNSNamesByInterface\<close>.
\<close>

record world =
  getenv :: "string \<Rightarrow> string"
  pairs :: "string \<Rightarrow> error + (string \<rightharpoonup> string)"
  gitconfig :: "string \<Rightarrow> (string \<rightharpoonup> string)"
  fails :: "string list \<Rightarrow> string option"
  commands :: "string list list"
  childOutput :: "string list \<Rightarrow> string \<times> string"
  reverseDNS :: "string \<Rightarrow> error + string list"
  stdout :: string
  stderr :: string

definition run :: "world \<Rightarrow> string list \<Rightarrow> world" where
  "run w cmd = w\<lparr>commands := commands w @ [cmd]\<rparr>"

definition Println :: "world \<Rightarrow> string \<Rightarrow> world" where
  "Println w s = w\<lparr>stdout := stdout w @ s\<rparr>"

definition Eprint :: "world \<Rightarrow> string \<Rightarrow> world" where
  "Eprint w s = w\<lparr>stderr := stderr w @ s\<rparr>"

text \<open>
  A child started with \<^verbatim>\<open>cmd.Stdout = os.Stdout\<close> and \<^verbatim>\<open>cmd.Stderr = os.Stderr\<close>
  writes on the streams of the program itself.
\<close>

definition inheritStreams :: "world \<Rightarrow> string list \<Rightarrow> world" where
  "inheritStreams w cmd =
     w\<lparr>stdout := stdout w @ fst (childOutput w cmd), stderr := stderr w @ snd (childOutput w cmd)\<rparr>"

subsection \<open>The identity store: GitConfig and SetGitConfig\<close>

text \<open>
  \<^verbatim>\<open>git config --file F P\<close> prints the stored value and a newline, and exits with
  status 1 when \<open>P\<close> is not set. \<^verbatim>\<open>git config --file F P V\<close> stores \<open>V\<close> under \<open>P\<close>;
  a run that fails stores nothing.
\<close>

definition GitConfig :: "world \<Rightarrow> string \<Rightarrow> string \<Rightarrow> (error + string) \<times> world" where
  "GitConfig w configFile property =
     (let cmd = [''git'', ''config'', ''--file'', configFile, property];
          w' = run w cmd
      in case fails w cmd of
           Some msg \<Rightarrow> (Inl (ExitError msg), w')
         | None \<Rightarrow>
             (case gitconfig w configFile property of
                None \<Rightarrow> (Inl (ExitError ''exit status 1''), w')
              | Some v \<Rightarrow> (Inr (strings_TrimRight (v @ [CHR 0x0A]) [CHR 0x0D, CHR 0x0A]), w')))"

definition SetGitConfig :: "world \<Rightarrow> string \<Rightarrow> string \<Rightarrow> string \<Rightarrow> error option \<times> world" where
  "SetGitConfig w configFile property v =
     (let cmd = [''git'', ''config'', ''--file'', configFile, property, v];
          w' = run w cmd
      in case fails w cmd of
           Some msg \<Rightarrow> (Some (ExitError msg), w')
         | None \<Rightarrow>
             (None, w'\<lparr>gitconfig := (gitconfig w')
                                      (configFile := (gitconfig w' configFile)(property \<mapsto> v))\<rparr>))"

subsection \<open>The operations\<close>

definition PrintCurrentPairedUsers :: "world \<Rightarrow> string \<Rightarrow> bool \<times> world" where
  "PrintCurrentPairedUsers w configFile =
     (case GitConfig w configFile ''user.name'' of
        (Inl err, w1) \<Rightarrow>
          (False, Eprint w1 (''error: unable to get current git author name: '' @ Error err @ [CHR 0x0A]))
      | (Inr name, w1) \<Rightarrow>
          (case GitConfig w1 configFile ''user.email'' of
             (Inl err, w2) \<Rightarrow>
               (False, Eprint w2 (''error: unable to get current git author email: '' @ Error err @ [CHR 0x0A]))
           | (Inr email, w2) \<Rightarrow>
               (True, Println w2 (name @ '' <'' @ email @ ''>'' @ [CHR 0x0A]))))"

definition SetAndPrintNewPairedUsers ::
  "world \<Rightarrow> string \<Rightarrow> string \<Rightarrow> string \<Rightarrow> string list \<Rightarrow> bool \<times> world" where
  "SetAndPrintNewPairedUsers w pairsFile configFile emailTemplate usernames0 =
     (case pairs w pairsFile of
        Inl err \<Rightarrow>
          (False, Eprint w (''error: unable to read authors from file ('' @ pairsFile @ ''): '' @ Error err))
      | Inr authorMap \<Rightarrow>
          (let usernames = sort_Strings usernames0 in
           case (case EmailAddressForUsernames emailTemplate usernames of
                   Inl err \<Rightarrow> Inl err
                 | Inr email \<Rightarrow>
                     (case NamesForUsernames usernames authorMap of
                        Inl err \<Rightarrow> Inl err
                      | Inr name \<Rightarrow> Inr (name, email))) of
             Inl err \<Rightarrow> (False, Eprint w (''error: '' @ Error err @ [CHR 0x0A]))
           | Inr (name, email) \<Rightarrow>
               (case SetGitConfig w configFile ''user.name'' name of
                  (Some err, w1) \<Rightarrow>
                    (False, Eprint w1 (''error: unable to set current git author name: '' @ Error err @ [CHR 0x0A]))
                | (None, w1) \<Rightarrow>
                    (case SetGitConfig w1 configFile ''user.email'' email of
                       (Some err, w2) \<Rightarrow>
                         (False, Eprint w2 (''error: unable to set current git author name: '' @ Error err @ [CHR 0x0A]))
                     | (None, w2) \<Rightarrow> PrintCurrentPairedUsers w2 configFile))))"

definition SwitchToPairBranch :: "world \<Rightarrow> string \<Rightarrow> string \<Rightarrow> string \<Rightarrow> bool \<times> world" where
  "SwitchToPairBranch w configFile branch emailTemplate =
     (case GitConfig w configFile ''user.email'' of
        (Inl err, w1) \<Rightarrow>
          (False, Eprint w1 (''error: unable to get current git author email from config file: ''
                              @ configFile @ [CHR 0x0A]))
      | (Inr email, w1) \<Rightarrow>
          (case SplitEmail emailTemplate of
             Inl err \<Rightarrow>
               (False, Eprint w1 (''error: unable to parse template email address: ''
                                   @ emailTemplate @ [CHR 0x0A]))
           | Inr (templateUsername, templateHost) \<Rightarrow>
               (case SplitEmail email of
                  Inl err \<Rightarrow>
                    (False, Eprint w1 (''error: unable to parse email address: '' @ email @ [CHR 0x0A]))
                | Inr (usernames0, host) \<Rightarrow>
                    (let usernames = strings_TrimPrefix usernames0 (templateUsername @ ''+'');
                         fullBranch = usernames @ ''/'' @ branch;
                         revparse = [''git'', ''rev-parse'', fullBranch];
                         w2 = run w1 revparse;
                         args = (case fails w1 revparse of
                                   Some msg \<Rightarrow> [''checkout''] @ [''-b'', fullBranch, ''master'']
                                 | None \<Rightarrow> [''checkout''] @ [fullBranch]);
                         w3 = inheritStreams (run w2 (''git'' # args)) (''git'' # args)
                     in case fails w2 (''git'' # args) of
                          Some msg \<Rightarrow>
                            (False, Eprint w3 (''error: unable to check out git branch: ''
                                                @ fullBranch @ [CHR 0x0A]))
                        | None \<Rightarrow> (True, w3)))))"

fun firstQualified :: "string list \<Rightarrow> string option" where
  "firstQualified [] = None"
| "firstQualified (dnsName # rest) =
     (let hostnameParts = strings_Split dnsName CHR ''.'' in
      if length hostnameParts \<ge> 3
      then Some (''git@'' @ strings_Join (take 2 (drop (length hostnameParts - 3) hostnameParts)) ''.'')
      else firstQualified rest)"

definition GetDefaultEmailTemplate :: "world \<Rightarrow> error + string" where
  "GetDefaultEmailTemplate w =
     (case reverseDNS w ''en0'' of
        Inl err \<Rightarrow> Inl err
      | Inr dnsNames \<Rightarrow>
          (case firstQualified dnsNames of
             Some t \<Rightarrow> Inr t
           | None \<Rightarrow> Inl (NotFullyQualified dnsNames)))"

text \<open>
  \<^verbatim>\<open>main\<close>, after \<^verbatim>\<open>flag.Parse\<close>: \<open>branch\<close> is the value of \<^verbatim>\<open>-b\<close> and \<open>args\<close>
  the remaining arguments. The result is the exit status and the world left behind.
\<close>

definition main :: "world \<Rightarrow> string \<Rightarrow> string list \<Rightarrow> nat \<times> world" where
  "main w branch args =
     (let configFile = (if getenv w ''PAIR_GIT_CONFIG'' = '''' then getenv w ''HOME'' @ ''/.gitconfig_local''
                        else getenv w ''PAIR_GIT_CONFIG'')
      in case (if getenv w ''PAIR_EMAIL'' = '''' then GetDefaultEmailTemplate w
               else Inr (getenv w ''PAIR_EMAIL'')) of
           Inl err \<Rightarrow>
             (1, Eprint w (''error: please set $PAIR_EMAIL to configure the pair email template'' @ [CHR 0x0A]))
         | Inr emailTemplate \<Rightarrow>
             if branch \<noteq> '''' then
               (case SwitchToPairBranch w configFile branch emailTemplate of
                  (True, w') \<Rightarrow> (0, w')
                | (False, w') \<Rightarrow> (1, w'))
             else if length args = 0 then
               (case PrintCurrentPairedUsers w configFile of
                  (True, w') \<Rightarrow> (0, w')
                | (False, w') \<Rightarrow> (1, w'))
             else
               (let pairsFile = (if getenv w ''PAIR_FILE'' = '''' then getenv w ''HOME'' @ ''/.pairs''
                                 else getenv w ''PAIR_FILE'')
                in case SetAndPrintNewPairedUsers w pairsFile configFile emailTemplate args of
                     (True, w') \<Rightarrow> (0, w')
                   | (False, w') \<Rightarrow> (1, w')))"

subsection \<open>Vocabulary for the statements\<close>

text \<open>
  The command lines that \<open>SetGitConfig\<close> runs are the only ones of six words that start
  with \<^verbatim>\<open>git config --file\<close>; reads have five words and the branch commands
  start differently. \<open>exampleWorld\<close> is a small concrete world for the examples: a
  directory with Lindsay and Michael Bluth, one configuration file with the given
  properties, the given failing commands, silent children, nothing run or printed yet.
\<close>

definition isStoreWrite :: "string list \<Rightarrow> bool" where
  "isStoreWrite cmd \<longleftrightarrow> length cmd = 6 \<and> take 3 cmd = [''git'', ''config'', ''--file'']"

definition exampleWorld :: "(string \<rightharpoonup> string) \<Rightarrow> (string list \<Rightarrow> string option) \<Rightarrow> world" where
  "exampleWorld stored failing =
     \<lparr>getenv = (\<lambda>v. if v = ''HOME'' then ''/home/mb''
                    else if v = ''PAIR_EMAIL'' then ''git@example.com'' else ''''),
      pairs = (\<lambda>f. Inr [''lb'' \<mapsto> ''Lindsay Bluth'', ''mb'' \<mapsto> ''Michael Bluth'']),
      gitconfig = (\<lambda>f. stored),
      fails = failing,
      commands = [],
      childOutput = (\<lambda>c. ('''', '''')),
      reverseDNS = (\<lambda>i. Inr []),
      stdout = '''',
      stderr = ''''\<rparr>"

section \<open>Properties\<close>

subsection \<open>Splitting and joining\<close>

lemma Split_ne: "strings_Split s c \<noteq> []"
  by (induction s) (auto split: list.splits)

lemma length_Split: "length (strings_Split s c) = Suc (count_list s c)"
  by (induction s) (auto split: list.splits simp: Split_ne)

lemma Split_none: "c \<notin> set s \<Longrightarrow> strings_Split s c = [s]"
  by (induction s) auto

lemma Split_two_iff:
  "strings_Split s c = [l, d] \<longleftrightarrow> s = l @ c # d \<and> c \<notin> set l \<and> c \<notin> set d"
proof (induction s arbitrary: l)
  case Nil
  then show ?case by auto
next
  case (Cons x xs)
  show ?case
  proof (cases "x = c")
    case True
    have "strings_Split xs c = [d] \<longleftrightarrow> xs = d \<and> c \<notin> set d"
    proof
      assume a: "strings_Split xs c = [d]"
      then have "count_list xs c = 0" using length_Split[of xs c] by simp
      then have "c \<notin> set xs" by (simp add: count_list_0_iff)
      with a show "xs = d \<and> c \<notin> set d" by (simp add: Split_none)
    next
      assume "xs = d \<and> c \<notin> set d" then show "strings_Split xs c = [d]" by (simp add: Split_none)
    qed
    with True show ?thesis by (cases l) auto
  next
    case False
    show ?thesis
    proof (cases l)
      case Nil
      with False show ?thesis by (auto split: list.splits)
    next
      case (Cons y ys)
      with False Cons.IH[of ys] show ?thesis
        by (auto split: list.splits simp: Split_ne)
    qed
  qed
qed

lemma SplitEmail_Inr_iff:
  "SplitEmail email = Inr (l, d) \<longleftrightarrow> email = l @ ''@'' @ d \<and> CHR ''@'' \<notin> set l \<and> CHR ''@'' \<notin> set d"
proof -
  have "SplitEmail email = Inr (l, d) \<longleftrightarrow> strings_Split email CHR ''@'' = [l, d]"
  proof
    assume a: "SplitEmail email = Inr (l, d)"
    then have len: "length (strings_Split email CHR ''@'') = 2"
      by (auto simp: SplitEmail_def Let_def split: if_splits)
    then obtain a' b' where ab: "strings_Split email CHR ''@'' = [a', b']"
      by (cases "strings_Split email CHR ''@''"; cases "tl (strings_Split email CHR ''@'')") auto
    with a show "strings_Split email CHR ''@'' = [l, d]" by (simp add: SplitEmail_def)
  next
    assume "strings_Split email CHR ''@'' = [l, d]"
    then show "SplitEmail email = Inr (l, d)" by (simp add: SplitEmail_def)
  qed
  then show ?thesis by (simp add: Split_two_iff)
qed

lemma SplitEmail_Inl: "count_list email CHR ''@'' \<noteq> 1 \<Longrightarrow> SplitEmail email = Inl (InvalidEmailAddress email)"
  by (simp add: SplitEmail_def length_Split)

lemma SplitEmail_ok: "count_list email CHR ''@'' = 1 \<Longrightarrow> \<exists>l d. SplitEmail email = Inr (l, d)"
  by (simp add: SplitEmail_def length_Split Let_def)

lemma Join_Cons: "strings_Join (a # as) sep = a @ concat (map (\<lambda>x. sep @ x) as)"
  by (induction as arbitrary: a) auto

lemma EmailAddressForUsernames_valid:
  assumes "CHR ''@'' \<notin> set L" and "CHR ''@'' \<notin> set D"
  shows "EmailAddressForUsernames (L @ ''@'' @ D) us =
           Inr (if us = [] then L @ ''@'' @ D
                else if length us = 1 then hd us @ ''@'' @ D
                else L @ ''+'' @ strings_Join us ''+'' @ ''@'' @ D)"
proof -
  have "SplitEmail (L @ ''@'' @ D) = Inr (L, D)"
    using assms by (simp add: SplitEmail_Inr_iff)
  then show ?thesis
    by (cases us) (simp_all add: EmailAddressForUsernames_def)
qed

text \<open>
  Claim C1. For a template \<open>L@D\<close> with exactly one \<open>@\<close>, the encoder returns the
  template itself for no alias, \<open>a@D\<close> for the single alias \<open>a\<close> (the local part of
  the template is dropped), and \<open>L+a1+a2+...+an@D\<close>, in the order given, for two or more
  aliases; the three examples of the specification are instances.
\<close>

theorem encode_forms:
  "(CHR ''@'' \<notin> set L \<and> CHR ''@'' \<notin> set D \<longrightarrow>
      EmailAddressForUsernames (L @ ''@'' @ D) [] = Inr (L @ ''@'' @ D)
    \<and> EmailAddressForUsernames (L @ ''@'' @ D) [a] = Inr (a @ ''@'' @ D)
    \<and> EmailAddressForUsernames (L @ ''@'' @ D) (a1 # a2 # as) =
        Inr (L @ ''+'' @ a1 @ concat (map (\<lambda>x. ''+'' @ x) (a2 # as)) @ ''@'' @ D))
   \<and> EmailAddressForUsernames ''git@x.com'' [] = Inr ''git@x.com''
   \<and> EmailAddressForUsernames ''git@x.com'' [''mb''] = Inr ''mb@x.com''
   \<and> EmailAddressForUsernames ''git@x.com'' [''lb'', ''mb''] = Inr ''git+lb+mb@x.com''"
proof -
  have ex: "EmailAddressForUsernames ''git@x.com'' [] = Inr ''git@x.com''"
    "EmailAddressForUsernames ''git@x.com'' [''mb''] = Inr ''mb@x.com''"
    "EmailAddressForUsernames ''git@x.com'' [''lb'', ''mb''] = Inr ''git+lb+mb@x.com''"
    by (simp_all add: EmailAddressForUsernames_def SplitEmail_def)
  have g: "EmailAddressForUsernames (L @ ''@'' @ D) [] = Inr (L @ ''@'' @ D)
      \<and> EmailAddressForUsernames (L @ ''@'' @ D) [a] = Inr (a @ ''@'' @ D)
      \<and> EmailAddressForUsernames (L @ ''@'' @ D) (a1 # a2 # as) =
          Inr (L @ ''+'' @ a1 @ concat (map (\<lambda>x. ''+'' @ x) (a2 # as)) @ ''@'' @ D)"
    if "CHR ''@'' \<notin> set L" and "CHR ''@'' \<notin> set D"
    using EmailAddressForUsernames_valid [OF that, of "[]"]
      EmailAddressForUsernames_valid [OF that, of "[a]"]
      EmailAddressForUsernames_valid [OF that, of "a1 # a2 # as"]
      Join_Cons [of a1 "a2 # as" "''+''"]
    by (simp del: strings_Join.simps)
  show ?thesis using g ex by blast
qed

theorem encode_forms_witness:
  "CHR ''@'' \<notin> set ''git'' \<and> CHR ''@'' \<notin> set ''example.com''
   \<and> EmailAddressForUsernames ''git@example.com'' [] = Inr ''git@example.com''
   \<and> EmailAddressForUsernames ''git@example.com'' [''alice''] = Inr ''alice@example.com''
   \<and> EmailAddressForUsernames ''git@example.com'' [''alice'', ''jsmith'', ''mb'']
        = Inr ''git+alice+jsmith+mb@example.com''"
  using encode_forms [of "''git''" "''example.com''" "''alice''" "''alice''" "''jsmith''" "[''mb'']"]
  by simp

text \<open>
  Claim C5. \<open>SplitEmail\<close> returns the pair of local part and domain exactly when the
  input contains exactly one \<open>@\<close>, and the invalid-address error otherwise; the
  three examples of the specification are instances.
\<close>

theorem SplitEmail_exactly_one_at:
  "(SplitEmail email = Inr (L, D) \<longleftrightarrow>
      email = L @ ''@'' @ D \<and> CHR ''@'' \<notin> set L \<and> CHR ''@'' \<notin> set D)
   \<and> ((\<exists>l d. SplitEmail email = Inr (l, d)) \<longleftrightarrow> count_list email CHR ''@'' = 1)
   \<and> (count_list email CHR ''@'' \<noteq> 1 \<longrightarrow> SplitEmail email = Inl (InvalidEmailAddress email))
   \<and> SplitEmail ''a@b.com'' = Inr (''a'', ''b.com'')
   \<and> SplitEmail '''' = Inl (InvalidEmailAddress '''')
   \<and> SplitEmail ''a@b@c'' = Inl (InvalidEmailAddress ''a@b@c'')"
proof -
  have a: "(\<exists>l d. SplitEmail email = Inr (l, d)) \<longleftrightarrow> count_list email CHR ''@'' = 1"
  proof (cases "count_list email CHR 0x40 = 1")
    case True
    then show ?thesis using SplitEmail_ok [of email] by simp
  next
    case False
    then show ?thesis using SplitEmail_Inl [of email] by simp
  qed
  have ex: "SplitEmail ''a@b.com'' = Inr (''a'', ''b.com'')"
    "SplitEmail '''' = Inl (InvalidEmailAddress '''')"
    "SplitEmail ''a@b@c'' = Inl (InvalidEmailAddress ''a@b@c'')"
    by (simp_all add: SplitEmail_def)
  show ?thesis
    using a ex SplitEmail_Inr_iff [of email L D] SplitEmail_Inl [of email] by blast
qed

theorem SplitEmail_exactly_one_at_witness:
  "SplitEmail ''git+lb+mb@example.com'' = Inr (''git+lb+mb'', ''example.com'')
   \<and> count_list ''git+lb+mb@example.com'' CHR ''@'' = 1
   \<and> count_list ''lb@mb@example.com'' CHR ''@'' \<noteq> 1
   \<and> SplitEmail ''lb@mb@example.com'' = Inl (InvalidEmailAddress ''lb@mb@example.com'')"
  using SplitEmail_exactly_one_at [of "''git+lb+mb@example.com''" "''git+lb+mb''" "''example.com''"]
    SplitEmail_exactly_one_at [of "''lb@mb@example.com''" "''''" "''''"]
  by simp

lemma collectNames_all:
  "set us \<subseteq> dom m \<Longrightarrow> collectNames us m acc = Inr (acc @ map (\<lambda>u. the (m u)) us)"
  by (induction us arbitrary: acc) auto

lemma collectNames_miss:
  "\<exists>u \<in> set us. m u = None \<Longrightarrow>
   collectNames us m acc = Inl (NoSuchUsername (hd (filter (\<lambda>u. m u = None) us)))"
  by (induction us arbitrary: acc) (auto split: option.splits)

text \<open>
  Claim C6. When every alias is in the directory, the names are the full names joined
  with \<open>'' and ''\<close> in the order of the input; the empty list gives the empty string and
  no error; the three examples of the specification are instances.
\<close>

theorem NamesForUsernames_joined:
  "(set us \<subseteq> dom m \<longrightarrow>
      NamesForUsernames [] m = Inr ''''
    \<and> (us = u # rest \<longrightarrow>
         NamesForUsernames us m =
           Inr (the (m u) @ concat (map (\<lambda>x. '' and '' @ the (m x)) rest))))
   \<and> NamesForUsernames [] Map.empty = Inr ''''
   \<and> NamesForUsernames [''mb''] [''mb'' \<mapsto> ''Michael Bluth''] = Inr ''Michael Bluth''
   \<and> NamesForUsernames [''lb'', ''mb''] [''lb'' \<mapsto> ''Lindsay Bluth'', ''mb'' \<mapsto> ''Michael Bluth'']
       = Inr ''Lindsay Bluth and Michael Bluth''"
proof -
  have g: "NamesForUsernames (u # rest) m =
             Inr (the (m u) @ concat (map (\<lambda>x. '' and '' @ the (m x)) rest))"
    if "set (u # rest) \<subseteq> dom m"
    using collectNames_all [OF that, of "[]"]
    by (simp add: NamesForUsernames_def Join_Cons comp_def del: collectNames.simps)
  have ex: "NamesForUsernames [] m = Inr ''''"
    "NamesForUsernames [] Map.empty = Inr ''''"
    "NamesForUsernames [''mb''] [''mb'' \<mapsto> ''Michael Bluth''] = Inr ''Michael Bluth''"
    "NamesForUsernames [''lb'', ''mb''] [''lb'' \<mapsto> ''Lindsay Bluth'', ''mb'' \<mapsto> ''Michael Bluth'']
       = Inr ''Lindsay Bluth and Michael Bluth''"
    by (simp_all add: NamesForUsernames_def)
  show ?thesis using g ex by blast
qed

theorem NamesForUsernames_joined_witness:
  "set [''alice'', ''jsmith''] \<subseteq> dom [''jsmith'' \<mapsto> ''Jon Smith'', ''alice'' \<mapsto> ''Alice Barns'']
   \<and> NamesForUsernames [''alice'', ''jsmith''] [''jsmith'' \<mapsto> ''Jon Smith'', ''alice'' \<mapsto> ''Alice Barns'']
       = Inr ''Alice Barns and Jon Smith''"
  using NamesForUsernames_joined [of "[''alice'', ''jsmith'']"
      "[''jsmith'' \<mapsto> ''Jon Smith'', ''alice'' \<mapsto> ''Alice Barns'']" "''alice''" "[''jsmith'']"]
  by simp

lemma sort_Strings_mset: "mset S1 = mset S2 \<Longrightarrow> sort_Strings S1 = sort_Strings S2"
  unfolding sort_Strings_def by (rule properties_for_sort) simp_all

text \<open>
  Claim C2. Two alias lists with the same elements in different orders sort to the same
  list, so the derived email, the derived display name and the whole run of
  \<open>SetAndPrintNewPairedUsers\<close> are the same for both.
\<close>

theorem identity_order_independent:
  assumes "mset S1 = mset S2"
  shows "sort_Strings S1 = sort_Strings S2
   \<and> EmailAddressForUsernames t (sort_Strings S1) = EmailAddressForUsernames t (sort_Strings S2)
   \<and> NamesForUsernames (sort_Strings S1) m = NamesForUsernames (sort_Strings S2) m
   \<and> SetAndPrintNewPairedUsers w pairsFile configFile t S1
       = SetAndPrintNewPairedUsers w pairsFile configFile t S2"
proof -
  have e: "sort_Strings S1 = sort_Strings S2"
    using assms by (rule sort_Strings_mset)
  show ?thesis
    unfolding SetAndPrintNewPairedUsers_def e by simp
qed

theorem identity_order_independent_witness:
  "mset [''mb'', ''lb'', ''gob''] = mset [''gob'', ''mb'', ''lb'']
   \<and> sort_Strings [''mb'', ''lb'', ''gob''] = [''gob'', ''lb'', ''mb'']
   \<and> sort_Strings [''gob'', ''mb'', ''lb''] = [''gob'', ''lb'', ''mb'']
   \<and> EmailAddressForUsernames ''git@example.com'' (sort_Strings [''mb'', ''lb'', ''gob''])
       = EmailAddressForUsernames ''git@example.com'' (sort_Strings [''gob'', ''mb'', ''lb''])
   \<and> SetAndPrintNewPairedUsers (exampleWorld Map.empty (\<lambda>c. None)) ''pairs'' ''cfg''
         ''git@example.com'' [''mb'', ''lb'', ''gob'']
       = SetAndPrintNewPairedUsers (exampleWorld Map.empty (\<lambda>c. None)) ''pairs'' ''cfg''
         ''git@example.com'' [''gob'', ''mb'', ''lb'']"
proof -
  have m: "mset [''mb'', ''lb'', ''gob''] = mset [''gob'', ''mb'', ''lb'']"
    by (simp add: add_mset_commute)
  have s: "sort_Strings [''mb'', ''lb'', ''gob''] = [''gob'', ''lb'', ''mb'']"
    "sort_Strings [''gob'', ''mb'', ''lb''] = [''gob'', ''lb'', ''mb'']"
    by (simp_all add: sort_Strings_def)
  show ?thesis
    using identity_order_independent [OF m, of "''git@example.com''" Map.empty
        "exampleWorld Map.empty (\<lambda>c. None)" "''pairs''" "''cfg''"] m s
    by simp
qed

subsection \<open>Running commands, printing, trimming\<close>

lemma run_simps [simp]:
  "getenv (run w c) = getenv w" "pairs (run w c) = pairs w" "gitconfig (run w c) = gitconfig w"
  "fails (run w c) = fails w" "commands (run w c) = commands w @ [c]"
  "reverseDNS (run w c) = reverseDNS w" "childOutput (run w c) = childOutput w"
  "stdout (run w c) = stdout w" "stderr (run w c) = stderr w"
  by (simp_all add: run_def)

lemma Eprint_simps [simp]:
  "getenv (Eprint w s) = getenv w" "pairs (Eprint w s) = pairs w" "gitconfig (Eprint w s) = gitconfig w"
  "fails (Eprint w s) = fails w" "commands (Eprint w s) = commands w"
  "reverseDNS (Eprint w s) = reverseDNS w" "childOutput (Eprint w s) = childOutput w"
  "stdout (Eprint w s) = stdout w"
  "stderr (Eprint w s) = stderr w @ s"
  by (simp_all add: Eprint_def)

lemma Println_simps [simp]:
  "getenv (Println w s) = getenv w" "pairs (Println w s) = pairs w" "gitconfig (Println w s) = gitconfig w"
  "fails (Println w s) = fails w" "commands (Println w s) = commands w"
  "reverseDNS (Println w s) = reverseDNS w" "childOutput (Println w s) = childOutput w"
  "stdout (Println w s) = stdout w @ s"
  "stderr (Println w s) = stderr w"
  by (simp_all add: Println_def)

lemma inheritStreams_simps [simp]:
  "getenv (inheritStreams w c) = getenv w" "pairs (inheritStreams w c) = pairs w"
  "gitconfig (inheritStreams w c) = gitconfig w" "fails (inheritStreams w c) = fails w"
  "commands (inheritStreams w c) = commands w" "reverseDNS (inheritStreams w c) = reverseDNS w"
  "childOutput (inheritStreams w c) = childOutput w"
  "stdout (inheritStreams w c) = stdout w @ fst (childOutput w c)"
  "stderr (inheritStreams w c) = stderr w @ snd (childOutput w c)"
  by (simp_all add: inheritStreams_def)

lemma TrimPrefix_present: "strings_TrimPrefix (p @ r) p = r"
  by (simp add: strings_TrimPrefix_def strings_HasPrefix_def)

lemma TrimPrefix_absent: "\<not> (\<exists>r. s = p @ r) \<Longrightarrow> strings_TrimPrefix s p = s"
proof -
  assume a: "\<not> (\<exists>r. s = p @ r)"
  have "\<not> strings_HasPrefix s p"
  proof
    assume "strings_HasPrefix s p"
    then have "take (length p) s = p" by (simp add: strings_HasPrefix_def)
    then have "s = p @ drop (length p) s" by (metis append_take_drop_id)
    with a show False by blast
  qed
  then show ?thesis by (simp add: strings_TrimPrefix_def)
qed

lemma TrimRight_keeps_front:
  assumes "c \<notin> set cutset"
  shows "strings_TrimRight (l @ c # d) cutset = l @ c # strings_TrimRight d cutset"
proof -
  have "dropWhile (\<lambda>x. x \<in> set cutset) (rev d @ c # rev l)
          = dropWhile (\<lambda>x. x \<in> set cutset) (rev d) @ c # rev l"
    using assms by (simp add: dropWhile_append)
  then show ?thesis by (simp add: strings_TrimRight_def)
qed

lemma set_TrimRight: "set (strings_TrimRight s cutset) \<subseteq> set s"
  unfolding strings_TrimRight_def using set_dropWhileD [of _ _ "rev s"] by auto

text \<open>What GitConfig reads back\<close>

lemma GitConfig_frame:
  "gitconfig (snd (GitConfig w f p)) = gitconfig w"
  "fails (snd (GitConfig w f p)) = fails w"
  "commands (snd (GitConfig w f p)) = commands w @ [[''git'', ''config'', ''--file'', f, p]]"
  "stderr (snd (GitConfig w f p)) = stderr w"
  "stdout (snd (GitConfig w f p)) = stdout w"
  "childOutput (snd (GitConfig w f p)) = childOutput w"
  by (simp_all add: GitConfig_def Let_def split: option.splits)

lemma GitConfig_stored_email:
  assumes "fails w [''git'', ''config'', ''--file'', f, p] = None"
    and "gitconfig w f p = Some (l @ ''@'' @ d)"
    and "CHR ''@'' \<notin> set l" and "CHR ''@'' \<notin> set d"
  shows "\<exists>d'. GitConfig w f p = (Inr (l @ ''@'' @ d'), run w [''git'', ''config'', ''--file'', f, p])
              \<and> SplitEmail (l @ ''@'' @ d') = Inr (l, d')"
proof -
  let ?d' = "strings_TrimRight (d @ [CHR 0x0A]) [CHR 0x0D, CHR 0x0A]"
  have t: "strings_TrimRight ((l @ ''@'' @ d) @ [CHR 0x0A]) [CHR 0x0D, CHR 0x0A] = l @ ''@'' @ ?d'"
    using TrimRight_keeps_front [of "CHR ''@''" "[CHR 0x0D, CHR 0x0A]" l "d @ [CHR 0x0A]"] by simp
  have "CHR ''@'' \<notin> set ?d'"
    using set_TrimRight [of "d @ [CHR 0x0A]" "[CHR 0x0D, CHR 0x0A]"] assms(4) by auto
  then have s: "SplitEmail (l @ ''@'' @ ?d') = Inr (l, ?d')"
    using assms(3) by (simp add: SplitEmail_Inr_iff)
  have "GitConfig w f p = (Inr (l @ ''@'' @ ?d'), run w [''git'', ''config'', ''--file'', f, p])"
    using assms(1,2) t by (simp add: GitConfig_def Let_def)
  with s show ?thesis by blast
qed

lemma Switch_resolved:
  assumes "GitConfig w cf ''user.email'' = (Inr email, w1)"
    and "SplitEmail t = Inr (tu, th)"
    and "SplitEmail email = Inr (u, h)"
  shows "SwitchToPairBranch w cf branch t =
           (let full = strings_TrimPrefix u (tu @ ''+'') @ ''/'' @ branch;
                co = (if fails w1 [''git'', ''rev-parse'', full] = None
                      then [''git'', ''checkout'', full]
                      else [''git'', ''checkout'', ''-b'', full, ''master'']);
                w3 = inheritStreams (run (run w1 [''git'', ''rev-parse'', full]) co) co
            in if fails w1 co = None then (True, w3)
               else (False, Eprint w3 (''error: unable to check out git branch: '' @ full @ [CHR 0x0A])))"
  using assms by (auto simp: SwitchToPairBranch_def Let_def split: option.splits)

subsection \<open>What the operations leave alone\<close>

lemma GitConfig_cases:
  "(\<exists>e. GitConfig w f p = (Inl e, run w [''git'', ''config'', ''--file'', f, p]))
   \<or> (\<exists>v. GitConfig w f p = (Inr v, run w [''git'', ''config'', ''--file'', f, p]))"
  by (simp add: GitConfig_def Let_def split: option.splits)

lemma isStoreWrite_simps [simp]:
  "\<not> isStoreWrite [a, b, c, d, e]" "\<not> isStoreWrite [a, b, c]"
  by (simp_all add: isStoreWrite_def)

lemma PrintCurrentPairedUsers_frame:
  "gitconfig (snd (PrintCurrentPairedUsers w cf)) = gitconfig w"
  "filter isStoreWrite (commands (snd (PrintCurrentPairedUsers w cf))) = filter isStoreWrite (commands w)"
  using GitConfig_cases [of w cf "''user.name''"]
    GitConfig_cases [of "run w [''git'', ''config'', ''--file'', cf, ''user.name'']" cf "''user.email''"]
  by (auto simp: PrintCurrentPairedUsers_def)

lemma SwitchToPairBranch_frame:
  "gitconfig (snd (SwitchToPairBranch w cf b t)) = gitconfig w"
  "filter isStoreWrite (commands (snd (SwitchToPairBranch w cf b t))) = filter isStoreWrite (commands w)"
  using GitConfig_cases [of w cf "''user.email''"]
  by (auto simp: SwitchToPairBranch_def Let_def split: sum.splits option.splits)

lemma exit_status_snd:
  "snd (case p of (True, w') \<Rightarrow> (0::nat, w') | (False, w') \<Rightarrow> (1, w')) = snd p"
  by (cases p; cases "fst p") auto

lemma main_no_args:
  "snd (main w branch []) =
     (case (if getenv w ''PAIR_EMAIL'' = '''' then GetDefaultEmailTemplate w
            else Inr (getenv w ''PAIR_EMAIL'')) of
        Inl err \<Rightarrow> Eprint w (''error: please set $PAIR_EMAIL to configure the pair email template'' @ [CHR 0x0A])
      | Inr emailTemplate \<Rightarrow>
          if branch \<noteq> '''' then
            snd (SwitchToPairBranch w
                  (if getenv w ''PAIR_GIT_CONFIG'' = '''' then getenv w ''HOME'' @ ''/.gitconfig_local''
                   else getenv w ''PAIR_GIT_CONFIG'') branch emailTemplate)
          else
            snd (PrintCurrentPairedUsers w
                  (if getenv w ''PAIR_GIT_CONFIG'' = '''' then getenv w ''HOME'' @ ''/.gitconfig_local''
                   else getenv w ''PAIR_GIT_CONFIG'')))"
  unfolding main_def Let_def
  by (simp only: exit_status_snd list.size if_True refl split: sum.split if_split)
    (simp add: exit_status_snd)

subsection \<open>Report-only mode\<close>

text \<open>
  Claim C7, as amended. Report-only mode is a decision of the entry point: run with no
  alias argument, \<open>main\<close> never writes the identity store, whatever the branch flag is:
  the stored properties are unchanged and no store-writing command is run.
  (\<open>SetAndPrintNewPairedUsers\<close> itself has no such guard; see the counterexample.)
\<close>

theorem report_only_at_entry_point:
  "args = [] \<Longrightarrow>
     gitconfig (snd (main w branch args)) = gitconfig w
   \<and> filter isStoreWrite (commands (snd (main w branch args))) = filter isStoreWrite (commands w)"
  by (simp add: main_no_args PrintCurrentPairedUsers_frame SwitchToPairBranch_frame
      split: sum.split)

theorem report_only_at_entry_point_witness:
  "gitconfig (snd (main (exampleWorld [''user.name'' \<mapsto> ''Michael Bluth'', ''user.email'' \<mapsto> ''mb@example.com'']
                                     (\<lambda>c. None)) '''' []))
     = gitconfig (exampleWorld [''user.name'' \<mapsto> ''Michael Bluth'', ''user.email'' \<mapsto> ''mb@example.com'']
                               (\<lambda>c. None))
   \<and> filter isStoreWrite (commands (snd (main
        (exampleWorld [''user.name'' \<mapsto> ''Michael Bluth'', ''user.email'' \<mapsto> ''mb@example.com'']
                      (\<lambda>c. None)) '''' []))) = []"
  using report_only_at_entry_point
    [of "[]" "exampleWorld [''user.name'' \<mapsto> ''Michael Bluth'', ''user.email'' \<mapsto> ''mb@example.com''] (\<lambda>c. None)" "''''"]
  by (simp add: exampleWorld_def)

subsection \<open>Writing the identity\<close>

lemma SetGitConfig_ok:
  "fails w [''git'', ''config'', ''--file'', cf, p, v] = None \<Longrightarrow>
   SetGitConfig w cf p v =
     (None, (run w [''git'', ''config'', ''--file'', cf, p, v])
              \<lparr>gitconfig := (gitconfig w)(cf := (gitconfig w cf)(p \<mapsto> v))\<rparr>)"
  by (simp add: SetGitConfig_def Let_def)

lemma SetGitConfig_fail:
  "fails w [''git'', ''config'', ''--file'', cf, p, v] = Some msg \<Longrightarrow>
   SetGitConfig w cf p v = (Some (ExitError msg), run w [''git'', ''config'', ''--file'', cf, p, v])"
  by (simp add: SetGitConfig_def Let_def)

lemma sync_resolved:
  assumes "pairs w pf = Inr m"
    and "EmailAddressForUsernames t (sort_Strings us) = Inr email"
    and "NamesForUsernames (sort_Strings us) m = Inr name"
  shows "SetAndPrintNewPairedUsers w pf cf t us =
     (case SetGitConfig w cf ''user.name'' name of
        (Some err, w1) \<Rightarrow>
          (False, Eprint w1 (''error: unable to set current git author name: '' @ Error err @ [CHR 0x0A]))
      | (None, w1) \<Rightarrow>
          (case SetGitConfig w1 cf ''user.email'' email of
             (Some err, w2) \<Rightarrow>
               (False, Eprint w2 (''error: unable to set current git author name: '' @ Error err @ [CHR 0x0A]))
           | (None, w2) \<Rightarrow> PrintCurrentPairedUsers w2 cf))"
  using assms by (simp add: SetAndPrintNewPairedUsers_def)

lemma sync_written:
  assumes "pairs w pf = Inr m"
    and "EmailAddressForUsernames t (sort_Strings us) = Inr email"
    and "NamesForUsernames (sort_Strings us) m = Inr name"
    and "fails w [''git'', ''config'', ''--file'', cf, ''user.name'', name] = None"
    and "fails w [''git'', ''config'', ''--file'', cf, ''user.email'', email] = None"
  shows "gitconfig (snd (SetAndPrintNewPairedUsers w pf cf t us)) =
           (gitconfig w)(cf := (gitconfig w cf)(''user.name'' \<mapsto> name, ''user.email'' \<mapsto> email))"
proof -
  let ?w1 = "(run w [''git'', ''config'', ''--file'', cf, ''user.name'', name])
              \<lparr>gitconfig := (gitconfig w)(cf := (gitconfig w cf)(''user.name'' \<mapsto> name))\<rparr>"
  have 1: "SetGitConfig w cf ''user.name'' name = (None, ?w1)"
    using assms(4) by (rule SetGitConfig_ok)
  have "fails ?w1 [''git'', ''config'', ''--file'', cf, ''user.email'', email] = None"
    using assms(5) by simp
  then have 2: "SetGitConfig ?w1 cf ''user.email'' email =
      (None, (run ?w1 [''git'', ''config'', ''--file'', cf, ''user.email'', email])
              \<lparr>gitconfig := (gitconfig ?w1)(cf := (gitconfig ?w1 cf)(''user.email'' \<mapsto> email))\<rparr>)"
    by (rule SetGitConfig_ok)
  show ?thesis
    using 1 2 by (simp add: sync_resolved [OF assms(1-3)] PrintCurrentPairedUsers_frame)
qed

text \<open>
  Claim C7 as stated fails on \<open>SetAndPrintNewPairedUsers\<close>: called with the empty alias list
  and a well-formed template it overwrites the stored identity of Michael Bluth with the
  empty name and the template address.
\<close>

theorem sync_empty_list_writes_counterexample:
  "gitconfig (exampleWorld [''user.name'' \<mapsto> ''Michael Bluth'', ''user.email'' \<mapsto> ''mb@example.com''] (\<lambda>c. None))
       ''cfg''
     = [''user.name'' \<mapsto> ''Michael Bluth'', ''user.email'' \<mapsto> ''mb@example.com'']
   \<and> gitconfig (snd (SetAndPrintNewPairedUsers
         (exampleWorld [''user.name'' \<mapsto> ''Michael Bluth'', ''user.email'' \<mapsto> ''mb@example.com''] (\<lambda>c. None))
         ''pairs'' ''cfg'' ''git@example.com'' []))
       ''cfg''
     = [''user.name'' \<mapsto> '''', ''user.email'' \<mapsto> ''git@example.com'']"
proof -
  let ?W = "exampleWorld [''user.name'' \<mapsto> ''Michael Bluth'', ''user.email'' \<mapsto> ''mb@example.com''] (\<lambda>c. None)"
  have p: "pairs ?W ''pairs'' = Inr [''lb'' \<mapsto> ''Lindsay Bluth'', ''mb'' \<mapsto> ''Michael Bluth'']"
    by (simp add: exampleWorld_def)
  have s: "sort_Strings [] = []" by (simp add: sort_Strings_def)
  have e: "EmailAddressForUsernames ''git@example.com'' (sort_Strings []) = Inr ''git@example.com''"
    unfolding s by (simp add: EmailAddressForUsernames_def SplitEmail_def)
  have n: "NamesForUsernames (sort_Strings []) [''lb'' \<mapsto> ''Lindsay Bluth'', ''mb'' \<mapsto> ''Michael Bluth''] = Inr ''''"
    unfolding s by (simp add: NamesForUsernames_def)
  have f: "fails ?W c = None" for c by (simp add: exampleWorld_def)
  have g: "gitconfig ?W = (\<lambda>f. [''user.name'' \<mapsto> ''Michael Bluth'', ''user.email'' \<mapsto> ''mb@example.com''])"
    by (simp add: exampleWorld_def)
  show ?thesis
    unfolding sync_written [OF p e n f f] g by (simp add: fun_upd_twist)
qed

text \<open>
  Claim C9. When the write of the name succeeds and the write of the email fails, the
  operation reports failure with an error message, the name just written stays in the
  store, the stored email is the old one, and exactly the two write commands were run:
  nothing is rolled back and nothing is retried.
\<close>

theorem partial_write_is_surfaced:
  assumes "pairs w pairsFile = Inr authorMap"
    and "EmailAddressForUsernames t (sort_Strings usernames) = Inr email"
    and "NamesForUsernames (sort_Strings usernames) authorMap = Inr name"
    and "fails w [''git'', ''config'', ''--file'', cf, ''user.name'', name] = None"
    and "fails w [''git'', ''config'', ''--file'', cf, ''user.email'', email] = Some msg"
  shows "fst (SetAndPrintNewPairedUsers w pairsFile cf t usernames) = False
   \<and> gitconfig (snd (SetAndPrintNewPairedUsers w pairsFile cf t usernames)) cf ''user.name'' = Some name
   \<and> gitconfig (snd (SetAndPrintNewPairedUsers w pairsFile cf t usernames)) cf ''user.email''
       = gitconfig w cf ''user.email''
   \<and> commands (snd (SetAndPrintNewPairedUsers w pairsFile cf t usernames))
       = commands w @ [[''git'', ''config'', ''--file'', cf, ''user.name'', name],
                       [''git'', ''config'', ''--file'', cf, ''user.email'', email]]
   \<and> stderr (snd (SetAndPrintNewPairedUsers w pairsFile cf t usernames))
       = stderr w @ ''error: unable to set current git author name: '' @ msg @ [CHR 0x0A]"
proof -
  let ?w1 = "(run w [''git'', ''config'', ''--file'', cf, ''user.name'', name])
              \<lparr>gitconfig := (gitconfig w)(cf := (gitconfig w cf)(''user.name'' \<mapsto> name))\<rparr>"
  have 1: "SetGitConfig w cf ''user.name'' name = (None, ?w1)"
    using assms(4) by (rule SetGitConfig_ok)
  have "fails ?w1 [''git'', ''config'', ''--file'', cf, ''user.email'', email] = Some msg"
    using assms(5) by simp
  then have 2: "SetGitConfig ?w1 cf ''user.email'' email =
      (Some (ExitError msg), run ?w1 [''git'', ''config'', ''--file'', cf, ''user.email'', email])"
    by (rule SetGitConfig_fail)
  show ?thesis
    using 1 2 by (simp add: sync_resolved [OF assms(1-3)])
qed

theorem partial_write_is_surfaced_witness:
  "fst (SetAndPrintNewPairedUsers
       (exampleWorld [''user.name'' \<mapsto> ''Lindsay Bluth'', ''user.email'' \<mapsto> ''lb@example.com'']
          (\<lambda>c. if c = [''git'', ''config'', ''--file'', ''cfg'', ''user.email'', ''mb@example.com'']
               then Some ''exit status 255'' else None))
       ''pairs'' ''cfg'' ''git@example.com'' [''mb'']) = False
   \<and> gitconfig (snd (SetAndPrintNewPairedUsers
       (exampleWorld [''user.name'' \<mapsto> ''Lindsay Bluth'', ''user.email'' \<mapsto> ''lb@example.com'']
          (\<lambda>c. if c = [''git'', ''config'', ''--file'', ''cfg'', ''user.email'', ''mb@example.com'']
               then Some ''exit status 255'' else None))
       ''pairs'' ''cfg'' ''git@example.com'' [''mb''])) ''cfg'' ''user.name'' = Some ''Michael Bluth''
   \<and> gitconfig (snd (SetAndPrintNewPairedUsers
       (exampleWorld [''user.name'' \<mapsto> ''Lindsay Bluth'', ''user.email'' \<mapsto> ''lb@example.com'']
          (\<lambda>c. if c = [''git'', ''config'', ''--file'', ''cfg'', ''user.email'', ''mb@example.com'']
               then Some ''exit status 255'' else None))
       ''pairs'' ''cfg'' ''git@example.com'' [''mb''])) ''cfg'' ''user.email'' = Some ''lb@example.com''
   \<and> stderr (snd (SetAndPrintNewPairedUsers
       (exampleWorld [''user.name'' \<mapsto> ''Lindsay Bluth'', ''user.email'' \<mapsto> ''lb@example.com'']
          (\<lambda>c. if c = [''git'', ''config'', ''--file'', ''cfg'', ''user.email'', ''mb@example.com'']
               then Some ''exit status 255'' else None))
       ''pairs'' ''cfg'' ''git@example.com'' [''mb'']))
     = ''error: unable to set current git author name: exit status 255'' @ [CHR 0x0A]"
proof -
  let ?F = "\<lambda>c. if c = [''git'', ''config'', ''--file'', ''cfg'', ''user.email'', ''mb@example.com'']
               then Some ''exit status 255'' else None"
  let ?W = "exampleWorld [''user.name'' \<mapsto> ''Lindsay Bluth'', ''user.email'' \<mapsto> ''lb@example.com''] ?F"
  have p: "pairs ?W ''pairs'' = Inr [''lb'' \<mapsto> ''Lindsay Bluth'', ''mb'' \<mapsto> ''Michael Bluth'']"
    by (simp add: exampleWorld_def)
  have s: "sort_Strings [''mb''] = [''mb'']" by (simp add: sort_Strings_def)
  have e: "EmailAddressForUsernames ''git@example.com'' (sort_Strings [''mb'']) = Inr ''mb@example.com''"
    unfolding s by (simp add: EmailAddressForUsernames_def SplitEmail_def)
  have n: "NamesForUsernames (sort_Strings [''mb'']) [''lb'' \<mapsto> ''Lindsay Bluth'', ''mb'' \<mapsto> ''Michael Bluth'']
             = Inr ''Michael Bluth''"
    unfolding s by (simp add: NamesForUsernames_def)
  have f1: "fails ?W [''git'', ''config'', ''--file'', ''cfg'', ''user.name'', ''Michael Bluth''] = None"
    by (simp add: exampleWorld_def)
  have f2: "fails ?W [''git'', ''config'', ''--file'', ''cfg'', ''user.email'', ''mb@example.com'']
              = Some ''exit status 255''"
    by (simp add: exampleWorld_def)
  have g: "gitconfig ?W ''cfg'' = [''user.name'' \<mapsto> ''Lindsay Bluth'', ''user.email'' \<mapsto> ''lb@example.com'']"
    and se: "stderr ?W = ''''"
    by (simp_all add: exampleWorld_def)
  show ?thesis
    using partial_write_is_surfaced [OF p e n f1 f2] g se by simp
qed

subsection \<open>Unknown aliases\<close>

lemma EmailAddressForUsernames_ok:
  "count_list t CHR ''@'' = 1 \<Longrightarrow> \<exists>e. EmailAddressForUsernames t us = Inr e"
  using SplitEmail_ok [of t] by (auto simp: EmailAddressForUsernames_def)

lemma EmailAddressForUsernames_err:
  "EmailAddressForUsernames t us = Inl e \<Longrightarrow> e = InvalidEmailAddress t"
  by (auto simp: EmailAddressForUsernames_def SplitEmail_def Let_def split: sum.splits if_splits)

lemma NamesForUsernames_miss:
  assumes "\<exists>u \<in> set us. m u = None"
  shows "NamesForUsernames us m = Inl (NoSuchUsername (hd (filter (\<lambda>u. m u = None) us)))"
proof -
  from assms have "us \<noteq> []" by auto
  then show ?thesis
    using collectNames_miss [OF assms, of "[]"] by (simp add: NamesForUsernames_def)
qed

text \<open>
  Claim C3, as amended. When some alias is absent from the directory, the operation
  fails before any side effect: the store is unchanged and no command is run at all.
  With a well-formed template the error names the first absent alias in sorted order;
  with a malformed template the error reported is the invalid address instead, because
  the email is derived before the names are looked up.
\<close>

theorem unknown_alias_aborts_before_write:
  assumes "pairs w pairsFile = Inr authorMap"
    and "\<exists>u \<in> set usernames. authorMap u = None"
  shows "fst (SetAndPrintNewPairedUsers w pairsFile configFile t usernames) = False
   \<and> gitconfig (snd (SetAndPrintNewPairedUsers w pairsFile configFile t usernames)) = gitconfig w
   \<and> commands (snd (SetAndPrintNewPairedUsers w pairsFile configFile t usernames)) = commands w
   \<and> (count_list t CHR ''@'' = 1 \<longrightarrow>
        hd (filter (\<lambda>u. authorMap u = None) (sort_Strings usernames)) \<in> set usernames
      \<and> authorMap (hd (filter (\<lambda>u. authorMap u = None) (sort_Strings usernames))) = None
      \<and> SetAndPrintNewPairedUsers w pairsFile configFile t usernames =
          (False, Eprint w (''error: '' @
             Error (NoSuchUsername (hd (filter (\<lambda>u. authorMap u = None) (sort_Strings usernames))))
             @ [CHR 0x0A])))
   \<and> (count_list t CHR ''@'' \<noteq> 1 \<longrightarrow>
        SetAndPrintNewPairedUsers w pairsFile configFile t usernames =
          (False, Eprint w (''error: '' @ Error (InvalidEmailAddress t) @ [CHR 0x0A])))"
proof -
  let ?s = "sort_Strings usernames"
  let ?a = "hd (filter (\<lambda>u. authorMap u = None) ?s)"
  have set_s: "set ?s = set usernames" by (simp add: sort_Strings_def)
  with assms(2) have miss: "\<exists>u \<in> set ?s. authorMap u = None" by simp
  then have ne: "filter (\<lambda>u. authorMap u = None) ?s \<noteq> []"
    by (simp add: filter_empty_conv)
  then have "?a \<in> set (filter (\<lambda>u. authorMap u = None) ?s)" by (rule hd_in_set)
  then have a: "?a \<in> set usernames \<and> authorMap ?a = None" using set_s by auto
  have n: "NamesForUsernames ?s authorMap = Inl (NoSuchUsername ?a)"
    using miss by (rule NamesForUsernames_miss)
  show ?thesis
  proof (cases "EmailAddressForUsernames t ?s")
    case (Inl e)
    then have e: "e = InvalidEmailAddress t" by (rule EmailAddressForUsernames_err)
    have "count_list t CHR ''@'' \<noteq> 1"
      using EmailAddressForUsernames_ok [of t ?s] Inl by auto
    then show ?thesis
      using assms(1) Inl e by (simp add: SetAndPrintNewPairedUsers_def)
  next
    case (Inr email)
    have "count_list t CHR ''@'' = 1"
    proof (rule ccontr)
      assume "count_list t CHR ''@'' \<noteq> 1"
      then have "SplitEmail t = Inl (InvalidEmailAddress t)" by (rule SplitEmail_Inl)
      with Inr show False by (simp add: EmailAddressForUsernames_def)
    qed
    then show ?thesis
      using assms(1) Inr n a by (simp add: SetAndPrintNewPairedUsers_def)
  qed
qed

theorem unknown_alias_aborts_before_write_witness:
  "(\<exists>u \<in> set [''mb'', ''zz'', ''gob'']. [''lb'' \<mapsto> ''Lindsay Bluth'', ''mb'' \<mapsto> ''Michael Bluth''] u = None)
   \<and> count_list ''git@example.com'' CHR ''@'' = 1
   \<and> count_list ''git.example.com'' CHR ''@'' \<noteq> 1
   \<and> SetAndPrintNewPairedUsers (exampleWorld Map.empty (\<lambda>c. None)) ''pairs'' ''cfg'' ''git@example.com''
        [''mb'', ''zz'', ''gob'']
       = (False, Eprint (exampleWorld Map.empty (\<lambda>c. None)) (''error: no such username: gob'' @ [CHR 0x0A]))
   \<and> SetAndPrintNewPairedUsers (exampleWorld Map.empty (\<lambda>c. None)) ''pairs'' ''cfg'' ''git.example.com''
        [''mb'', ''zz'', ''gob'']
       = (False, Eprint (exampleWorld Map.empty (\<lambda>c. None))
                   (''error: invalid email address: git.example.com'' @ [CHR 0x0A]))"
proof -
  have p: "pairs (exampleWorld Map.empty (\<lambda>c. None)) ''pairs''
     = Inr [''lb'' \<mapsto> ''Lindsay Bluth'', ''mb'' \<mapsto> ''Michael Bluth'']"
    by (simp add: exampleWorld_def)
  have m: "\<exists>u \<in> set [''mb'', ''zz'', ''gob'']. [''lb'' \<mapsto> ''Lindsay Bluth'', ''mb'' \<mapsto> ''Michael Bluth''] u = None"
    by simp
  have s: "sort_Strings [''mb'', ''zz'', ''gob''] = [''gob'', ''mb'', ''zz'']"
    by (simp add: sort_Strings_def)
  show ?thesis
    using unknown_alias_aborts_before_write [OF p m, of "''cfg''" "''git@example.com''"]
      unknown_alias_aborts_before_write [OF p m, of "''cfg''" "''git.example.com''"]
    by (simp add: s)
qed

text \<open>
  Claim C3 as stated fails when the template is malformed: the alias \<open>gob\<close> is absent from
  the directory, yet the error reported is the invalid address, not the unknown alias.
\<close>

theorem malformed_template_masks_unknown_alias_counterexample:
  "pairs (exampleWorld Map.empty (\<lambda>c. None)) ''pairs''
     = Inr [''lb'' \<mapsto> ''Lindsay Bluth'', ''mb'' \<mapsto> ''Michael Bluth'']
   \<and> [''lb'' \<mapsto> ''Lindsay Bluth'', ''mb'' \<mapsto> ''Michael Bluth''] ''gob'' = None
   \<and> stderr (snd (SetAndPrintNewPairedUsers (exampleWorld Map.empty (\<lambda>c. None)) ''pairs'' ''cfg''
                    ''git.example.com'' [''gob'']))
       = ''error: invalid email address: git.example.com'' @ [CHR 0x0A]
   \<and> stderr (snd (SetAndPrintNewPairedUsers (exampleWorld Map.empty (\<lambda>c. None)) ''pairs'' ''cfg''
                    ''git.example.com'' [''gob'']))
       \<noteq> ''error: no such username: gob'' @ [CHR 0x0A]"
proof -
  have p: "pairs (exampleWorld Map.empty (\<lambda>c. None)) ''pairs''
     = Inr [''lb'' \<mapsto> ''Lindsay Bluth'', ''mb'' \<mapsto> ''Michael Bluth'']"
    and se: "stderr (exampleWorld Map.empty (\<lambda>c. None)) = ''''"
    by (simp_all add: exampleWorld_def)
  have s: "sort_Strings [''gob''] = [''gob'']" by (simp add: sort_Strings_def)
  have e: "EmailAddressForUsernames ''git.example.com'' [''gob'']
             = Inl (InvalidEmailAddress ''git.example.com'')"
    by (simp add: EmailAddressForUsernames_def SplitEmail_def)
  have "SetAndPrintNewPairedUsers (exampleWorld Map.empty (\<lambda>c. None)) ''pairs'' ''cfg''
          ''git.example.com'' [''gob'']
        = (False, Eprint (exampleWorld Map.empty (\<lambda>c. None))
                    (''error: invalid email address: git.example.com'' @ [CHR 0x0A]))"
    by (simp add: SetAndPrintNewPairedUsers_def p s e)
  then show ?thesis using p se by simp
qed

subsection \<open>The pair branch\<close>

lemma Switch_stored:
  assumes "gitconfig w cf ''user.email'' = Some (EL @ ''@'' @ ED)"
    and "CHR ''@'' \<notin> set EL" and "CHR ''@'' \<notin> set ED"
    and "CHR ''@'' \<notin> set TL" and "CHR ''@'' \<notin> set TD"
    and "fails w [''git'', ''config'', ''--file'', cf, ''user.email''] = None"
    and "name = strings_TrimPrefix EL (TL @ ''+'') @ ''/'' @ branch"
    and "co = (if fails w [''git'', ''rev-parse'', name] = None
               then [''git'', ''checkout'', name]
               else [''git'', ''checkout'', ''-b'', name, ''master''])"
  shows "SwitchToPairBranch w cf branch (TL @ ''@'' @ TD) =
           (if fails w co = None
            then (True, inheritStreams
                          (run (run (run w [''git'', ''config'', ''--file'', cf, ''user.email''])
                                 [''git'', ''rev-parse'', name]) co) co)
            else (False, Eprint (inheritStreams
                                   (run (run (run w [''git'', ''config'', ''--file'', cf, ''user.email''])
                                          [''git'', ''rev-parse'', name]) co) co)
                           (''error: unable to check out git branch: '' @ name @ [CHR 0x0A])))"
proof -
  obtain d' where g: "GitConfig w cf ''user.email''
        = (Inr (EL @ ''@'' @ d'), run w [''git'', ''config'', ''--file'', cf, ''user.email''])"
    and e: "SplitEmail (EL @ ''@'' @ d') = Inr (EL, d')"
    using GitConfig_stored_email [OF assms(6) assms(1) assms(2) assms(3)] by blast
  have t: "SplitEmail (TL @ ''@'' @ TD) = Inr (TL, TD)"
    using assms(4,5) by (simp add: SplitEmail_Inr_iff)
  show ?thesis
    unfolding Switch_resolved [OF g t e] using assms(7,8) by (simp add: Let_def)
qed

lemma TrimPrefix_plus:
  "(\<exists>r. EL = TL @ ''+'' @ r \<and> name = r @ ''/'' @ branch)
   \<or> (\<not> (\<exists>r. EL = TL @ ''+'' @ r) \<and> name = EL @ ''/'' @ branch)
   \<Longrightarrow> name = strings_TrimPrefix EL (TL @ ''+'') @ ''/'' @ branch"
proof (elim disjE exE conjE)
  fix r assume "EL = TL @ ''+'' @ r" "name = r @ ''/'' @ branch"
  then show ?thesis using TrimPrefix_present [of "TL @ ''+''" r] by simp
next
  assume a: "\<not> (\<exists>r. EL = TL @ ''+'' @ r)" and n: "name = EL @ ''/'' @ branch"
  from a have "\<not> (\<exists>r. EL = (TL @ ''+'') @ r)" by simp
  then have "strings_TrimPrefix EL (TL @ ''+'') = EL" by (rule TrimPrefix_absent)
  with n show ?thesis by simp
qed

text \<open>
  Claim C4. For a stored email and a template with exactly one \<open>@\<close> each, the branch
  name is the local part of the stored email with the prefix "template local part, then
  \<open>+\<close>" stripped when it is there, then \<open>/\<close> and the branch topic: that name is looked up
  with \<^verbatim>\<open>git rev-parse\<close> and then checked out.
\<close>

theorem branch_name_strips_template_prefix:
  assumes "gitconfig w cf ''user.email'' = Some (EL @ ''@'' @ ED)"
    and "CHR ''@'' \<notin> set EL" and "CHR ''@'' \<notin> set ED"
    and "CHR ''@'' \<notin> set TL" and "CHR ''@'' \<notin> set TD"
    and "fails w [''git'', ''config'', ''--file'', cf, ''user.email''] = None"
    and "(\<exists>r. EL = TL @ ''+'' @ r \<and> name = r @ ''/'' @ branch)
         \<or> (\<not> (\<exists>r. EL = TL @ ''+'' @ r) \<and> name = EL @ ''/'' @ branch)"
    and "co = (if fails w [''git'', ''rev-parse'', name] = None
               then [''git'', ''checkout'', name]
               else [''git'', ''checkout'', ''-b'', name, ''master''])"
  shows "commands (snd (SwitchToPairBranch w cf branch (TL @ ''@'' @ TD))) =
           commands w @ [[''git'', ''config'', ''--file'', cf, ''user.email''],
                         [''git'', ''rev-parse'', name], co]"
  unfolding Switch_stored [OF assms(1-6) TrimPrefix_plus [OF assms(7)] assms(8)]
  by simp

theorem branch_name_strips_template_prefix_witness:
  "commands (snd (SwitchToPairBranch
       (exampleWorld [''user.email'' \<mapsto> ''git+lb+mb@example.com''] (\<lambda>c. None))
       ''cfg'' ''ONCALL-843'' ''git@example.com'')) =
     [[''git'', ''config'', ''--file'', ''cfg'', ''user.email''],
      [''git'', ''rev-parse'', ''lb+mb/ONCALL-843''],
      [''git'', ''checkout'', ''lb+mb/ONCALL-843'']]"
proof -
  let ?W = "exampleWorld [''user.email'' \<mapsto> ''git+lb+mb@example.com''] (\<lambda>c. None)"
  have 1: "gitconfig ?W ''cfg'' ''user.email'' = Some (''git+lb+mb'' @ ''@'' @ ''example.com'')"
    by (simp add: exampleWorld_def)
  have 2: "CHR ''@'' \<notin> set ''git+lb+mb''" "CHR ''@'' \<notin> set ''example.com''"
    "CHR ''@'' \<notin> set ''git''"
    by simp_all
  have 3: "fails ?W c = None" for c by (simp add: exampleWorld_def)
  have 4: "(\<exists>r. ''git+lb+mb'' = ''git'' @ ''+'' @ r \<and> ''lb+mb/ONCALL-843'' = r @ ''/'' @ ''ONCALL-843'')
         \<or> (\<not> (\<exists>r. ''git+lb+mb'' = ''git'' @ ''+'' @ r)
             \<and> ''lb+mb/ONCALL-843'' = ''git+lb+mb'' @ ''/'' @ ''ONCALL-843'')"
    by simp
  have 5: "[''git'', ''checkout'', ''lb+mb/ONCALL-843''] =
      (if fails ?W [''git'', ''rev-parse'', ''lb+mb/ONCALL-843''] = None
       then [''git'', ''checkout'', ''lb+mb/ONCALL-843'']
       else [''git'', ''checkout'', ''-b'', ''lb+mb/ONCALL-843'', ''master''])"
    by (simp add: 3)
  have 6: "commands ?W = []" by (simp add: exampleWorld_def)
  show ?thesis
    using branch_name_strips_template_prefix [OF 1 2(1) 2(2) 2(3) 2(2) 3 4 5] 6 by simp
qed

text \<open>
  Claim C10. When the local part of the stored email does not begin with the template's
  local part followed by \<open>+\<close> (in particular when the stored email is the template
  itself), the derivation raises no error and the branch name is the stored local part,
  verbatim, then \<open>/\<close> and the topic: that name is looked up and checked out, the
  operation succeeds exactly when the checkout does, and the program adds an error line
  of its own to what git writes only when the checkout fails.
\<close>

theorem branch_name_without_prefix:
  assumes "gitconfig w cf ''user.email'' = Some (EL @ ''@'' @ ED)"
    and "CHR ''@'' \<notin> set EL" and "CHR ''@'' \<notin> set ED"
    and "CHR ''@'' \<notin> set TL" and "CHR ''@'' \<notin> set TD"
    and "fails w [''git'', ''config'', ''--file'', cf, ''user.email''] = None"
    and "\<not> (\<exists>r. EL = TL @ ''+'' @ r)"
    and "co = (if fails w [''git'', ''rev-parse'', EL @ ''/'' @ branch] = None
               then [''git'', ''checkout'', EL @ ''/'' @ branch]
               else [''git'', ''checkout'', ''-b'', EL @ ''/'' @ branch, ''master''])"
  shows "commands (snd (SwitchToPairBranch w cf branch (TL @ ''@'' @ TD))) =
           commands w @ [[''git'', ''config'', ''--file'', cf, ''user.email''],
                         [''git'', ''rev-parse'', EL @ ''/'' @ branch], co]
   \<and> fst (SwitchToPairBranch w cf branch (TL @ ''@'' @ TD)) = (fails w co = None)
   \<and> stdout (snd (SwitchToPairBranch w cf branch (TL @ ''@'' @ TD))) =
       stdout w @ fst (childOutput w co)
   \<and> stderr (snd (SwitchToPairBranch w cf branch (TL @ ''@'' @ TD))) =
       stderr w @ snd (childOutput w co) @
       (if fails w co = None then ''''
        else ''error: unable to check out git branch: '' @ EL @ ''/'' @ branch @ [CHR 0x0A])"
proof -
  have n: "EL @ ''/'' @ branch = strings_TrimPrefix EL (TL @ ''+'') @ ''/'' @ branch"
    using assms(7) by (intro TrimPrefix_plus) simp
  show ?thesis
    unfolding Switch_stored [OF assms(1-6) n assms(8)] by simp
qed

theorem branch_name_without_prefix_witness:
  "commands (snd (SwitchToPairBranch
       ((exampleWorld [''user.email'' \<mapsto> ''git@example.com''] (\<lambda>c. None))
          \<lparr>childOutput := (\<lambda>c. if c = [''git'', ''checkout'', ''git/X'']
                then ('''', ''Switched to branch '' @ [CHR 0x27] @ ''git/X'' @ [CHR 0x27, CHR 0x0A])
                else ('''', ''''))\<rparr>)
       ''cfg'' ''X'' ''git@example.com'')) =
     [[''git'', ''config'', ''--file'', ''cfg'', ''user.email''],
      [''git'', ''rev-parse'', ''git/X''],
      [''git'', ''checkout'', ''git/X'']]
   \<and> fst (SwitchToPairBranch
       ((exampleWorld [''user.email'' \<mapsto> ''git@example.com''] (\<lambda>c. None))
          \<lparr>childOutput := (\<lambda>c. if c = [''git'', ''checkout'', ''git/X'']
                then ('''', ''Switched to branch '' @ [CHR 0x27] @ ''git/X'' @ [CHR 0x27, CHR 0x0A])
                else ('''', ''''))\<rparr>)
       ''cfg'' ''X'' ''git@example.com'') = True
   \<and> stdout (snd (SwitchToPairBranch
       ((exampleWorld [''user.email'' \<mapsto> ''git@example.com''] (\<lambda>c. None))
          \<lparr>childOutput := (\<lambda>c. if c = [''git'', ''checkout'', ''git/X'']
                then ('''', ''Switched to branch '' @ [CHR 0x27] @ ''git/X'' @ [CHR 0x27, CHR 0x0A])
                else ('''', ''''))\<rparr>)
       ''cfg'' ''X'' ''git@example.com'')) = ''''
   \<and> stderr (snd (SwitchToPairBranch
       ((exampleWorld [''user.email'' \<mapsto> ''git@example.com''] (\<lambda>c. None))
          \<lparr>childOutput := (\<lambda>c. if c = [''git'', ''checkout'', ''git/X'']
                then ('''', ''Switched to branch '' @ [CHR 0x27] @ ''git/X'' @ [CHR 0x27, CHR 0x0A])
                else ('''', ''''))\<rparr>)
       ''cfg'' ''X'' ''git@example.com''))
     = ''Switched to branch '' @ [CHR 0x27] @ ''git/X'' @ [CHR 0x27, CHR 0x0A]"
proof -
  let ?W = "(exampleWorld [''user.email'' \<mapsto> ''git@example.com''] (\<lambda>c. None))
          \<lparr>childOutput := (\<lambda>c. if c = [''git'', ''checkout'', ''git/X'']
                then ('''', ''Switched to branch '' @ [CHR 0x27] @ ''git/X'' @ [CHR 0x27, CHR 0x0A])
                else ('''', ''''))\<rparr>"
  have 1: "gitconfig ?W ''cfg'' ''user.email'' = Some (''git'' @ ''@'' @ ''example.com'')"
    by (simp add: exampleWorld_def)
  have 2: "CHR ''@'' \<notin> set ''git''" "CHR ''@'' \<notin> set ''example.com''"
    by simp_all
  have 3: "fails ?W c = None" for c by (simp add: exampleWorld_def)
  have 4: "\<not> (\<exists>r. ''git'' = ''git'' @ ''+'' @ r)" by simp
  have 5: "[''git'', ''checkout'', ''git/X''] =
      (if fails ?W [''git'', ''rev-parse'', ''git'' @ ''/'' @ ''X''] = None
       then [''git'', ''checkout'', ''git'' @ ''/'' @ ''X'']
       else [''git'', ''checkout'', ''-b'', ''git'' @ ''/'' @ ''X'', ''master''])"
    by (simp add: exampleWorld_def)
  have 6: "commands ?W = []" "stderr ?W = ''''" "stdout ?W = ''''"
    by (simp_all add: exampleWorld_def)
  have 7: "childOutput ?W [''git'', ''checkout'', ''git/X'']
             = ('''', ''Switched to branch '' @ [CHR 0x27] @ ''git/X'' @ [CHR 0x27, CHR 0x0A])"
    by simp
  show ?thesis
    using branch_name_without_prefix [OF 1 2(1) 2(2) 2(1) 2(2) 3 4 5] 3 6 7 by simp
qed

text \<open>
  Claim C8, as amended. Once the full branch name is derived, a name that
  \<^verbatim>\<open>git rev-parse\<close> resolves is checked out as it is, and a name that it does not
  resolve is created and checked out with \<^verbatim>\<open>git checkout -b\<close> rooted at the ref
  \<open>master\<close>. The root is this fixed word of the program for every environment, every
  configuration file and every template: no configuration supplies it.
\<close>

theorem checkout_existing_or_create_from_master:
  assumes "GitConfig w cf ''user.email'' = (Inr email, w1)"
    and "SplitEmail t = Inr (tu, th)"
    and "SplitEmail email = Inr (u, h)"
    and "full = strings_TrimPrefix u (tu @ ''+'') @ ''/'' @ branch"
  shows "(fails w [''git'', ''rev-parse'', full] = None \<longrightarrow>
            commands (snd (SwitchToPairBranch w cf branch t)) =
              commands w1 @ [[''git'', ''rev-parse'', full], [''git'', ''checkout'', full]])
   \<and> (fails w [''git'', ''rev-parse'', full] \<noteq> None \<longrightarrow>
            commands (snd (SwitchToPairBranch w cf branch t)) =
              commands w1 @ [[''git'', ''rev-parse'', full],
                             [''git'', ''checkout'', ''-b'', full, ''master'']])"
proof -
  have "fails w1 = fails w"
    using GitConfig_frame(2) [of w cf "''user.email''"] assms(1) by simp
  then show ?thesis
    unfolding Switch_resolved [OF assms(1-3)] using assms(4) by (simp add: Let_def)
qed

theorem checkout_existing_or_create_from_master_witness:
  "commands (snd (SwitchToPairBranch
       (exampleWorld [''user.email'' \<mapsto> ''git+lb+mb@example.com''] (\<lambda>c. None))
       ''cfg'' ''ONCALL-843'' ''git@example.com'')) =
     [[''git'', ''config'', ''--file'', ''cfg'', ''user.email''],
      [''git'', ''rev-parse'', ''lb+mb/ONCALL-843''],
      [''git'', ''checkout'', ''lb+mb/ONCALL-843'']]
   \<and> commands (snd (SwitchToPairBranch
       (exampleWorld [''user.email'' \<mapsto> ''git+lb+mb@example.com'']
          (\<lambda>c. if c = [''git'', ''rev-parse'', ''lb+mb/ONCALL-843''] then Some ''exit status 128'' else None))
       ''cfg'' ''ONCALL-843'' ''git@example.com'')) =
     [[''git'', ''config'', ''--file'', ''cfg'', ''user.email''],
      [''git'', ''rev-parse'', ''lb+mb/ONCALL-843''],
      [''git'', ''checkout'', ''-b'', ''lb+mb/ONCALL-843'', ''master'']]"
proof -
  let ?F = "\<lambda>c. if c = [''git'', ''rev-parse'', ''lb+mb/ONCALL-843''] then Some ''exit status 128'' else None"
  let ?A = "exampleWorld [''user.email'' \<mapsto> ''git+lb+mb@example.com''] (\<lambda>c. None)"
  let ?B = "exampleWorld [''user.email'' \<mapsto> ''git+lb+mb@example.com''] ?F"
  let ?get = "[''git'', ''config'', ''--file'', ''cfg'', ''user.email'']"
  have gA: "GitConfig ?A ''cfg'' ''user.email'' = (Inr ''git+lb+mb@example.com'', run ?A ?get)"
    by (simp add: GitConfig_def exampleWorld_def strings_TrimRight_def)
  have gB: "GitConfig ?B ''cfg'' ''user.email'' = (Inr ''git+lb+mb@example.com'', run ?B ?get)"
    by (simp add: GitConfig_def exampleWorld_def strings_TrimRight_def)
  have t: "SplitEmail ''git@example.com'' = Inr (''git'', ''example.com'')"
    and e: "SplitEmail ''git+lb+mb@example.com'' = Inr (''git+lb+mb'', ''example.com'')"
    by (simp_all add: SplitEmail_def)
  have f: "''lb+mb/ONCALL-843'' = strings_TrimPrefix ''git+lb+mb'' (''git'' @ ''+'') @ ''/'' @ ''ONCALL-843''"
    by (simp add: strings_TrimPrefix_def strings_HasPrefix_def)
  have cA: "commands (run ?A ?get) = [?get]" and cB: "commands (run ?B ?get) = [?get]"
    by (simp_all add: exampleWorld_def)
  have fA: "fails ?A [''git'', ''rev-parse'', ''lb+mb/ONCALL-843''] = None"
    and fB: "fails ?B [''git'', ''rev-parse'', ''lb+mb/ONCALL-843''] \<noteq> None"
    by (simp_all add: exampleWorld_def)
  show ?thesis
    using checkout_existing_or_create_from_master [OF gA t e f]
      checkout_existing_or_create_from_master [OF gB t e f] fA fB
    unfolding cA cB by simp
qed

text \<open>
  Claim C8 as stated fails: here the configuration file names \<open>main\<close> as the primary branch
  (git's own \<^verbatim>\<open>init.defaultBranch\<close>), and the whole program, run with \<^verbatim>\<open>-b ONCALL-843\<close>,
  still creates the pair branch from \<open>master\<close>.
\<close>

theorem primary_branch_not_configurable_counterexample:
  "gitconfig (exampleWorld [''user.email'' \<mapsto> ''git+lb+mb@example.com'', ''init.defaultBranch'' \<mapsto> ''main'']
       (\<lambda>c. if c = [''git'', ''rev-parse'', ''lb+mb/ONCALL-843''] then Some ''exit status 128'' else None))
     ''/home/mb/.gitconfig_local'' ''init.defaultBranch'' = Some ''main''
   \<and> commands (snd (main
       (exampleWorld [''user.email'' \<mapsto> ''git+lb+mb@example.com'', ''init.defaultBranch'' \<mapsto> ''main'']
          (\<lambda>c. if c = [''git'', ''rev-parse'', ''lb+mb/ONCALL-843''] then Some ''exit status 128'' else None))
       ''ONCALL-843'' [])) =
     [[''git'', ''config'', ''--file'', ''/home/mb/.gitconfig_local'', ''user.email''],
      [''git'', ''rev-parse'', ''lb+mb/ONCALL-843''],
      [''git'', ''checkout'', ''-b'', ''lb+mb/ONCALL-843'', ''master'']]"
proof -
  let ?F = "\<lambda>c. if c = [''git'', ''rev-parse'', ''lb+mb/ONCALL-843''] then Some ''exit status 128'' else None"
  let ?W = "exampleWorld [''user.email'' \<mapsto> ''git+lb+mb@example.com'', ''init.defaultBranch'' \<mapsto> ''main''] ?F"
  let ?cf = "''/home/mb/.gitconfig_local''"
  have env: "getenv ?W ''PAIR_EMAIL'' = ''git@example.com''" "getenv ?W ''PAIR_GIT_CONFIG'' = ''''"
    "getenv ?W ''HOME'' = ''/home/mb''"
    by (simp_all add: exampleWorld_def)
  have m: "snd (main ?W ''ONCALL-843'' []) = snd (SwitchToPairBranch ?W ?cf ''ONCALL-843'' ''git@example.com'')"
    unfolding main_no_args env by simp
  have 1: "gitconfig ?W ?cf ''user.email'' = Some (''git+lb+mb'' @ ''@'' @ ''example.com'')"
    and 0: "gitconfig ?W ?cf ''init.defaultBranch'' = Some ''main''"
    by (simp_all add: exampleWorld_def)
  have 2: "CHR ''@'' \<notin> set ''git+lb+mb''" "CHR ''@'' \<notin> set ''example.com''"
    "CHR ''@'' \<notin> set ''git''"
    by simp_all
  have 3: "fails ?W [''git'', ''config'', ''--file'', ?cf, ''user.email''] = None"
    by (simp add: exampleWorld_def)
  have 4: "''lb+mb/ONCALL-843'' = strings_TrimPrefix ''git+lb+mb'' (''git'' @ ''+'') @ ''/'' @ ''ONCALL-843''"
    by (simp add: strings_TrimPrefix_def strings_HasPrefix_def)
  have 5: "[''git'', ''checkout'', ''-b'', ''lb+mb/ONCALL-843'', ''master''] =
      (if fails ?W [''git'', ''rev-parse'', ''lb+mb/ONCALL-843''] = None
       then [''git'', ''checkout'', ''lb+mb/ONCALL-843'']
       else [''git'', ''checkout'', ''-b'', ''lb+mb/ONCALL-843'', ''master''])"
    by (simp add: exampleWorld_def)
  have 6: "commands ?W = []" by (simp add: exampleWorld_def)
  have "commands (snd (SwitchToPairBranch ?W ?cf ''ONCALL-843'' (''git'' @ ''@'' @ ''example.com''))) =
     [[''git'', ''config'', ''--file'', ?cf, ''user.email''],
      [''git'', ''rev-parse'', ''lb+mb/ONCALL-843''],
      [''git'', ''checkout'', ''-b'', ''lb+mb/ONCALL-843'', ''master'']]"
    unfolding Switch_stored [OF 1 2(1) 2(2) 2(3) 2(2) 3 4 5] using 6 by simp
  then show ?thesis using m 0 by simp
qed

end
